theory Spec2Isabelle
  imports Main "HOL-Library.Word"
begin

section \<open>JavaScript strings and values\<close>

text \<open>
  A JavaScript string is a sequence of 16-bit code units. String literals of the
  source are written with \<open>lit\<close>.
\<close>

type_synonym jsstring = "16 word list"

definition lit :: "string \<Rightarrow> jsstring" where
  "lit s = map of_char s"

text \<open>
  The values that \<open>JSON.parse\<close> can return, and \<open>undefined\<close>, which reading a
  missing property yields. An object is the list of its own properties, each key once.
  Numbers are kept as integers: the command does no arithmetic on feed values, it only
  tests them for truthiness.
\<close>

datatype jsval =
    Undefined
  | Null
  | JBool bool
  | JNum int
  | JStr jsstring
  | JArr "jsval list"
  | JObj "(jsstring \<times> jsval) list"

text \<open>ToBoolean: what \<open>!v\<close> and \<open>v && ...\<close> test.\<close>

fun truthy :: "jsval \<Rightarrow> bool" where
  "truthy Undefined = False"
| "truthy Null = False"
| "truthy (JBool b) = b"
| "truthy (JNum n) = (n \<noteq> 0)"
| "truthy (JStr s) = (s \<noteq> [])"
| "truthy (JArr xs) = True"
| "truthy (JObj kvs) = True"

text \<open>
  Thrown values. \<open>Error\<close> is what the command itself throws with \<open>new Error(message)\<close>;
  \<open>TypeError\<close> is what the runtime throws on a property read of \<open>undefined\<close> or
  \<open>null\<close> and on a call of a missing method; \<open>SyntaxError\<close> is the exception of
  \<open>JSON.parse\<close>. Each carries its message.
\<close>

datatype js_error =
    Error jsstring
  | TypeError jsstring
  | SyntaxError jsstring

fun message_of :: "js_error \<Rightarrow> jsstring" where
  "message_of (Error m) = m"
| "message_of (TypeError m) = m"
| "message_of (SyntaxError m) = m"

definition cannot_read :: "jsstring \<Rightarrow> jsval \<Rightarrow> js_error" where
  "cannot_read k v =
     TypeError (lit ''Cannot read property '' @ [0x27] @ k @ [0x27] @ lit '' of '' @
                (if v = Null then lit ''null'' else lit ''undefined''))"

text \<open>
  Property read \<open>v[k]\<close> / \<open>v.k\<close>, for the keys the command reads: the index \<open>0\<close> and
  the field names of a release record. Reading from \<open>undefined\<close> or \<open>null\<close> throws;
  a missing property is \<open>undefined\<close>. Other indices, \<open>length\<close> and inherited
  properties are not needed and not modelled.
\<close>

definition own_property :: "(jsstring \<times> jsval) list \<Rightarrow> jsstring \<Rightarrow> jsval" where
  "own_property kvs k = (case map_of kvs k of Some v \<Rightarrow> v | None \<Rightarrow> Undefined)"

fun get_prop :: "jsval \<Rightarrow> jsstring \<Rightarrow> js_error + jsval" where
  "get_prop Undefined k = Inl (cannot_read k Undefined)"
| "get_prop Null k = Inl (cannot_read k Null)"
| "get_prop (JObj kvs) k = Inr (own_property kvs k)"
| "get_prop (JArr xs) k =
     Inr (if k = lit ''0'' then (case xs of [] \<Rightarrow> Undefined | x # _ \<Rightarrow> x) else Undefined)"
| "get_prop (JStr s) k =
     Inr (if k = lit ''0'' then (case s of [] \<Rightarrow> Undefined | c # _ \<Rightarrow> JStr [c]) else Undefined)"
| "get_prop (JBool b) k = Inr Undefined"
| "get_prop (JNum n) k = Inr Undefined"

text \<open>Sequencing of computations that may throw.\<close>

definition bindE :: "'e + 'a \<Rightarrow> ('a \<Rightarrow> 'e + 'b) \<Rightarrow> 'e + 'b" where
  "bindE m f = (case m of Inl e \<Rightarrow> Inl e | Inr x \<Rightarrow> f x)"

subsection \<open>\<open>String.prototype.trim\<close>\<close>

text \<open>The code units that \<open>trim\<close> strips: WhiteSpace and LineTerminator of ECMAScript.\<close>

definition LineTerminator :: "16 word \<Rightarrow> bool" where
  "LineTerminator c = (c = 0x000A \<or> c = 0x000D \<or> c = 0x2028 \<or> c = 0x2029)"

definition WhiteSpace :: "16 word \<Rightarrow> bool" where
  "WhiteSpace c =
     (c = 0x0009 \<or> c = 0x000B \<or> c = 0x000C \<or> c = 0x0020 \<or> c = 0x00A0 \<or> c = 0x1680 \<or>
      (0x2000 \<le> c \<and> c \<le> 0x200A) \<or> c = 0x202F \<or> c = 0x205F \<or> c = 0x3000 \<or> c = 0xFEFF)"

definition StrWhiteSpaceChar :: "16 word \<Rightarrow> bool" where
  "StrWhiteSpaceChar c = (WhiteSpace c \<or> LineTerminator c)"

definition trim :: "jsstring \<Rightarrow> jsstring" where
  "trim s = rev (dropWhile StrWhiteSpaceChar (rev (dropWhile StrWhiteSpaceChar s)))"

section \<open>The link rewriting of the changelog\<close>

text \<open>
  \<^verbatim>\<open>let aRE = /<a(.+?)>(.*?)<\/a>/g\<close>. The dot matches any code unit that is not a
  LineTerminator; both groups are lazy, so the matcher tries the shortest first and
  lengthens it by backtracking.

  \<open>match_body\<close> is \<^verbatim>\<open>(.*?)<\/a>\<close> anchored at the start of its argument and
  returns the second group.
\<close>

fun match_body :: "jsstring \<Rightarrow> jsstring option" where
  "match_body t =
     (if take 4 t = lit ''</a>'' then Some []
      else (case t of
              [] \<Rightarrow> None
            | c # cs \<Rightarrow>
                if LineTerminator c then None
                else map_option ((#) c) (match_body cs)))"

text \<open>\<open>match_attrs\<close> is \<^verbatim>\<open>(.+?)>(.*?)<\/a>\<close> anchored; it returns both groups.\<close>

fun match_attrs :: "jsstring \<Rightarrow> (jsstring \<times> jsstring) option" where
  "match_attrs [] = None"
| "match_attrs (c # cs) =
     (if LineTerminator c then None
      else (case (case cs of
                    [] \<Rightarrow> None
                  | d # ds \<Rightarrow> if d = 0x3E then match_body ds else None) of
              Some p2 \<Rightarrow> Some ([c], p2)
            | None \<Rightarrow> map_option (\<lambda>(p1, p2). (c # p1, p2)) (match_attrs cs)))"

text \<open>One attempt of \<open>aRE\<close> at the start of the argument.\<close>

definition exec_aRE :: "jsstring \<Rightarrow> (jsstring \<times> jsstring) option" where
  "exec_aRE s = (if take 2 s = lit ''<a'' then match_attrs (drop 2 s) else None)"

text \<open>The replacer function of the source, on the two groups.\<close>

definition replacer :: "jsstring \<Rightarrow> jsstring \<Rightarrow> jsstring" where
  \<open>replacer p1 p2 =
     lit ''<a'' @ p1 @
     lit '' onclick="require('electron').shell.openExternal(this.getAttribute('href')); return false;" target="_blank">'' @
     p2 @ lit ''</a>''\<close>

text \<open>
  \<open>html.replace(aRE, replacer)\<close> with the global flag: scan from the left; where the
  expression matches, emit the replacement and go on after the match (a match is
  \<open><a\<close>, group 1, \<open>>\<close>, group 2, \<open></a>\<close>: seven code units and the groups); where it
  does not, keep the code unit and go on with the next.
\<close>

fun replace_aRE :: "jsstring \<Rightarrow> jsstring" where
  "replace_aRE [] = []"
| "replace_aRE (c # cs) =
     (case exec_aRE (c # cs) of
        Some (p1, p2) \<Rightarrow> replacer p1 p2 @ replace_aRE (drop (length p1 + length p2 + 6) cs)
      | None \<Rightarrow> c # replace_aRE cs)"

section \<open>The collaborators of the command\<close>

text \<open>
  The command calls packages and modules that are not part of its file. They are
  parameters of the model, collected in one record; a call that can throw returns a sum.
  The fields are the constants \<open>REPO_URL\<close> and \<open>CUR_VER\<close>, the package \<open>got\<close>
  (by the settled value of its promise), \<open>trans\<close> of the translation module (named
  \<open>translate\<close> here), \<open>global.config.get\<close>, \<open>JSON.parse\<close>, \<open>semver.lt\<close> and
  the \<open>makeHtml\<close> of a \<open>showdown.Converter\<close> built with given options.
\<close>

record got_options =
  followRedirect :: bool
  headers :: "(jsstring \<times> jsstring) list"

text \<open>A resolved request: only the body is read.\<close>

record got_response =
  body :: jsstring

text \<open>
  A rejected request, as the \<open>catch\<close> clause reads it: \<open>error.statusCode\<close>
  (\<open>None\<close> when undefined), \<open>error.code\<close> (\<open>None\<close> when undefined) and
  \<open>error.message\<close>.
\<close>

record got_error =
  statusCode :: "int option"
  code :: "jsstring option"
  message :: jsstring

text \<open>The options the converter is built with: the constructor's and \<open>setFlavor\<close>'s.\<close>

record converter_options =
  headerLevelStart :: nat
  flavor :: jsstring

record env =
  REPO_URL :: jsstring
  CUR_VER :: jsstring
  got :: "jsstring \<Rightarrow> got_options \<Rightarrow> got_error + got_response"
  translate :: "jsstring \<Rightarrow> jsval list \<Rightarrow> jsstring"
  config_get :: "jsstring \<Rightarrow> jsval"
  JSON_parse :: "jsstring \<Rightarrow> js_error + jsval"
  semver_lt :: "jsstring \<Rightarrow> jsval \<Rightarrow> js_error + bool"
  makeHtml :: "converter_options \<Rightarrow> jsval \<Rightarrow> js_error + jsval"

section \<open>The command\<close>

text \<open>
  The object of the command: its one mutable field \<open>this._response\<close>. Between the
  two assignments of \<open>_check\<close> the field holds the response object; nothing reads it
  there, and the model assigns the body at once.
\<close>

record UpdateCheck =
  response :: jsval

definition constructor :: UpdateCheck where
  "constructor = \<lparr>response = JStr []\<rparr>"

text \<open>The object that \<open>_parseResponse\<close> returns.\<close>

record update_data =
  newVer :: jsval
  curVer :: jsstring
  changelog :: jsstring
  releaseURL :: jsval
  isBeta :: jsval
  downloadURL :: jsstring

text \<open>What \<open>run\<close> hands to the two channels.\<close>

datatype effect =
    Ipc_send jsstring update_data
  | Ipc_notify jsstring

text \<open>\<open>${error.code}\<close> in a template literal.\<close>

definition template_code :: "jsstring option \<Rightarrow> jsstring" where
  "template_code c = (case c of None \<Rightarrow> lit ''undefined'' | Some s \<Rightarrow> s)"

text \<open>\<open>error.statusCode >= n\<close>: false when the status is undefined.\<close>

definition status_ge :: "int option \<Rightarrow> int \<Rightarrow> bool" where
  "status_ge s n = (case s of None \<Rightarrow> False | Some k \<Rightarrow> n \<le> k)"

definition status_arg :: "int option \<Rightarrow> jsval" where
  "status_arg s = (case s of None \<Rightarrow> Undefined | Some k \<Rightarrow> JNum k)"

text \<open>
  Lines 93 to 98 of \<open>_parseResponse\<close>: the setting, and the first record's
  \<open>prerelease\<close> only when the setting is off.
\<close>

definition acceptRelease :: "env \<Rightarrow> jsval \<Rightarrow> js_error + bool" where
  "acceptRelease env feed =
     (if truthy (config_get env (lit ''checkForBeta'')) then Inr True
      else bindE (get_prop feed (lit ''0'')) (\<lambda>r.
           bindE (get_prop r (lit ''prerelease'')) (\<lambda>p.
           Inr (\<not> truthy p))))"

text \<open>Lines 103 to 115: the changelog of a record.\<close>

definition changelog_html :: "env \<Rightarrow> jsval \<Rightarrow> js_error + jsstring" where
  "changelog_html env feed =
     bindE (get_prop feed (lit ''0'')) (\<lambda>r.
     bindE (get_prop r (lit ''body'')) (\<lambda>b.
     bindE (makeHtml env \<lparr>headerLevelStart = 2, flavor = lit ''github''\<rparr> b) (\<lambda>html.
       case html of
         JStr h \<Rightarrow> Inr (replace_aRE h)
       | Undefined \<Rightarrow> Inl (cannot_read (lit ''replace'') Undefined)
       | Null \<Rightarrow> Inl (cannot_read (lit ''replace'') Null)
       | _ \<Rightarrow> Inl (TypeError (lit ''html.replace is not a function'')))))"

text \<open>
  Lines 93 to 127, on the parsed feed. The condition of line 102 is evaluated from the
  left: the comparison first (it may throw), and \<open>draft\<close> only when the rest holds.
\<close>

definition parse_feed :: "env \<Rightarrow> jsval \<Rightarrow> js_error + update_data" where
  "parse_feed env feed =
     bindE (acceptRelease env feed) (\<lambda>accept.
     bindE (get_prop feed (lit ''0'')) (\<lambda>r.
     bindE (get_prop r (lit ''tag_name'')) (\<lambda>tag.
     bindE (semver_lt env (CUR_VER env) tag) (\<lambda>newer.
     bindE (if newer \<and> accept
            then bindE (get_prop r (lit ''draft'')) (\<lambda>d. Inr (\<not> truthy d))
            else Inr False) (\<lambda>ok.
       if ok then
         bindE (changelog_html env feed) (\<lambda>html.
         bindE (get_prop r (lit ''html_url'')) (\<lambda>url.
         bindE (get_prop r (lit ''prerelease'')) (\<lambda>pre.
           Inr \<lparr>newVer = tag, curVer = CUR_VER env, changelog = html,
                releaseURL = url, isBeta = pre, downloadURL = lit ''''\<rparr>)))
       else Inl (Error (translate env (lit ''dialog.update.no_update'') [])))))))"

text \<open>
  \<open>_parseResponse\<close>: the result or the thrown value, and the object afterwards.
  In \<open>_check\<close> the field holds the body, a string; on any other value the call of
  \<open>trim\<close> throws.
\<close>

definition parseResponse :: "env \<Rightarrow> UpdateCheck \<Rightarrow> (js_error + update_data) \<times> UpdateCheck" where
  "parseResponse env this =
     (case response this of
        JStr s \<Rightarrow>
          if trim s = [] then
            (Inl (Error (translate env (lit ''dialog.update.no_data'') [])), this)
          else (case JSON_parse env s of
                  Inl e \<Rightarrow> (Inl e, this)
                | Inr feed \<Rightarrow> (parse_feed env feed, this\<lparr>response := feed\<rparr>))
      | Undefined \<Rightarrow> (Inl (cannot_read (lit ''trim'') Undefined), this)
      | Null \<Rightarrow> (Inl (cannot_read (lit ''trim'') Null), this)
      | _ \<Rightarrow> (Inl (TypeError (lit ''this._response.trim is not a function'')), this))"

text \<open>The request of \<open>_check\<close>: \<open>got(REPO_URL + 'releases', {...})\<close>.\<close>

definition releases_request :: "env \<Rightarrow> got_error + got_response" where
  "releases_request env =
     got env (REPO_URL env @ lit ''releases'')
       \<lparr>followRedirect = False,
        headers = [(lit ''accept'', lit ''application/vnd.github.v3+json'')]\<rparr>"

text \<open>
  \<open>_check\<close>: the request, the classification of a rejected request, and the parse.
  The promise it returns is modelled by its settled value: \<open>Inr\<close> resolved,
  \<open>Inl\<close> rejected.
\<close>

definition check :: "env \<Rightarrow> UpdateCheck \<Rightarrow> (js_error + update_data) \<times> UpdateCheck" where
  "check env this =
     (case releases_request env of
        Inr res \<Rightarrow> parseResponse env (this\<lparr>response := JStr (body res)\<rparr>)
      | Inl error \<Rightarrow>
          (Inl (if status_ge (statusCode error) 500 then
                  Error (translate env (lit ''dialog.update.server_error'')
                           [status_arg (statusCode error)])
                else if status_ge (statusCode error) 400 then
                  Error (translate env (lit ''dialog.update.client_error'')
                           [status_arg (statusCode error)])
                else if status_ge (statusCode error) 300 then
                  Error (translate env (lit ''dialog.update.redirect_error'')
                           [status_arg (statusCode error)])
                else if code error = Some (lit ''ENOTFOUND'') then
                  Error (translate env (lit ''dialog.update.connection_error'') [])
                else
                  Error (lit ''Could not check for updates. '' @ template_code (code error) @
                         lit '': '' @ message error)),
           this))"

text \<open>
  \<open>run\<close>: the value it returns, what the two handlers of the promise send once it
  has settled, and the object afterwards.
\<close>

definition run :: "env \<Rightarrow> UpdateCheck \<Rightarrow> bool \<times> effect list \<times> UpdateCheck" where
  "run env this =
     (case check env this of
        (Inr res, this') \<Rightarrow> (True, [Ipc_send (lit ''update-available'') res], this')
      | (Inl e, this') \<Rightarrow> (True, [Ipc_notify (message_of e)], this'))"

section \<open>Fixed collaborators for the scenarios\<close>

text \<open>
  An environment in which every collaborator answers with a given value: the request
  settles with \<open>answer\<close>, the setting is \<open>beta\<close>, the parser is \<open>parse\<close>, the
  version comparison returns \<open>newer\<close>, the converter returns \<open>html\<close>, and a message
  key is translated to itself. The running version is the one of the scenarios.
\<close>

definition fixed_env ::
  "(got_error + got_response) \<Rightarrow> jsval \<Rightarrow> (jsstring \<Rightarrow> js_error + jsval) \<Rightarrow>
   (js_error + bool) \<Rightarrow> (js_error + jsval) \<Rightarrow> env" where
  "fixed_env answer beta parse newer html =
     \<lparr>REPO_URL = lit ''https://api.github.com/repos/Zettlr/Zettlr/'',
      CUR_VER = lit ''1.2.0'',
      got = (\<lambda>url opts. answer),
      translate = (\<lambda>k args. k),
      config_get = (\<lambda>k. beta),
      JSON_parse = parse,
      semver_lt = (\<lambda>cur tag. newer),
      makeHtml = (\<lambda>opts text. html)\<rparr>"

text \<open>
  A parser that knows the given texts and rejects every other, as \<open>JSON.parse\<close>
  rejects what is not JSON.
\<close>

definition parse_table :: "(jsstring \<times> jsval) list \<Rightarrow> jsstring \<Rightarrow> js_error + jsval" where
  "parse_table table s =
     (case map_of table s of
        Some v \<Rightarrow> Inr v
      | None \<Rightarrow> Inl (SyntaxError (lit ''Unexpected token < in JSON at position 0'')))"

text \<open>
  The release record of the scenario with version 1.3.0, its rendered notes, an older
  record, a prerelease, and the texts of two feeds that begin with the scenario's record.
\<close>

definition release_1_3_0 :: jsval where
  "release_1_3_0 =
     JObj [(lit ''tag_name'', JStr (lit ''1.3.0'')),
           (lit ''draft'', JBool False),
           (lit ''prerelease'', JBool False),
           (lit ''body'', JStr (lit ''# Notes'')),
           (lit ''html_url'', JStr (lit ''https://x/1.3.0''))]"

definition release_1_2_0 :: jsval where
  "release_1_2_0 =
     JObj [(lit ''tag_name'', JStr (lit ''1.2.0'')),
           (lit ''draft'', JBool False),
           (lit ''prerelease'', JBool False),
           (lit ''body'', JStr (lit ''# Old'')),
           (lit ''html_url'', JStr (lit ''https://x/1.2.0''))]"

definition release_beta :: jsval where
  "release_beta =
     JObj [(lit ''tag_name'', JStr (lit ''1.3.0-beta.1'')),
           (lit ''draft'', JBool False),
           (lit ''prerelease'', JBool True),
           (lit ''body'', JStr (lit ''# Notes'')),
           (lit ''html_url'', JStr (lit ''https://x/1.3.0-beta.1''))]"

definition feed_text :: jsstring where
  \<open>feed_text =
     lit ''[{"tag_name":"1.3.0","draft":false,"prerelease":false,"body":"# Notes","html_url":"https://x/1.3.0"}]''\<close>

definition long_feed_text :: jsstring where
  \<open>long_feed_text =
     lit ''[{"tag_name":"1.3.0","draft":false,"prerelease":false,"body":"# Notes","html_url":"https://x/1.3.0"},{"tag_name":"1.2.0","draft":false,"prerelease":false,"body":"# Old","html_url":"https://x/1.2.0"}]''\<close>

definition notes_html :: jsstring where
  \<open>notes_html = lit ''<h2 id="notes">Notes</h2>''\<close>

text \<open>
  A release whose notes are one link with a line break in its text,
  \<^verbatim>\<open>[release\<close> newline \<^verbatim>\<open>notes](https://x/notes)\<close>, and the paragraph it renders to.
\<close>

definition two_line_link_notes :: jsstring where
  "two_line_link_notes = lit ''[release'' @ [0x0A] @ lit ''notes](https://x/notes)''"

definition release_two_line_link :: jsval where
  "release_two_line_link =
     JObj [(lit ''tag_name'', JStr (lit ''1.3.0'')),
           (lit ''draft'', JBool False),
           (lit ''prerelease'', JBool False),
           (lit ''body'', JStr two_line_link_notes),
           (lit ''html_url'', JStr (lit ''https://x/1.3.0''))]"

definition two_line_link_html :: jsstring where
  \<open>two_line_link_html =
     lit ''<p><a href="https://x/notes">release'' @ [0x0A] @ lit ''notes</a></p>''\<close>

section \<open>Auxiliary facts\<close>

lemma trim_eq_Nil: "trim s = [] \<longleftrightarrow> (\<forall>c\<in>set s. StrWhiteSpaceChar c)"
proof
  assume "trim s = []"
  then have all: "\<forall>c\<in>set (dropWhile StrWhiteSpaceChar s). StrWhiteSpaceChar c"
    by (simp add: trim_def dropWhile_eq_Nil_conv)
  have "dropWhile StrWhiteSpaceChar s = []"
  proof (rule ccontr)
    assume ne: "dropWhile StrWhiteSpaceChar s \<noteq> []"
    then have "\<not> StrWhiteSpaceChar (hd (dropWhile StrWhiteSpaceChar s))"
      by (rule hd_dropWhile)
    moreover from ne
    have "hd (dropWhile StrWhiteSpaceChar s) \<in> set (dropWhile StrWhiteSpaceChar s)"
      by (rule hd_in_set)
    ultimately show False using all by blast
  qed
  then show "\<forall>c\<in>set s. StrWhiteSpaceChar c"
    by (simp only: dropWhile_eq_Nil_conv)
next
  assume "\<forall>c\<in>set s. StrWhiteSpaceChar c"
  then have "dropWhile StrWhiteSpaceChar s = []"
    by (simp only: dropWhile_eq_Nil_conv)
  then show "trim s = []"
    unfolding trim_def by (simp del: dropWhile_eq_Nil_conv)
qed

lemma check_resolved:
  "releases_request env = Inr res \<Longrightarrow>
   check env this = parseResponse env (this\<lparr>response := JStr (body res)\<rparr>)"
  by (simp add: check_def)

lemma parseResponse_parsed:
  "trim s \<noteq> [] \<Longrightarrow> JSON_parse env s = Inr feed \<Longrightarrow>
   parseResponse env (this\<lparr>response := JStr s\<rparr>) =
     (parse_feed env feed, this\<lparr>response := feed\<rparr>)"
  by (simp add: parseResponse_def)

text \<open>What lines 93 to 127 do when the feed has a first record and the comparison returns.\<close>

lemma parse_feed_record:
  assumes "get_prop feed (lit ''0'') = Inr (JObj kvs)"
    and "semver_lt env (CUR_VER env) (own_property kvs (lit ''tag_name'')) = Inr newer"
  shows "parse_feed env feed =
     (if newer \<and>
         (truthy (config_get env (lit ''checkForBeta'')) \<or>
          \<not> truthy (own_property kvs (lit ''prerelease''))) \<and>
         \<not> truthy (own_property kvs (lit ''draft''))
      then bindE (changelog_html env feed) (\<lambda>html.
             Inr \<lparr>newVer = own_property kvs (lit ''tag_name''), curVer = CUR_VER env,
                  changelog = html, releaseURL = own_property kvs (lit ''html_url''),
                  isBeta = own_property kvs (lit ''prerelease''), downloadURL = lit ''''\<rparr>)
      else Inl (Error (translate env (lit ''dialog.update.no_update'') [])))"
  using assms by (auto simp add: parse_feed_def acceptRelease_def bindE_def)

lemma changelog_html_record:
  assumes "get_prop feed (lit ''0'') = Inr (JObj kvs)"
    and "makeHtml env \<lparr>headerLevelStart = 2, flavor = lit ''github''\<rparr>
           (own_property kvs (lit ''body'')) = Inr (JStr h)"
  shows "changelog_html env feed = Inr (replace_aRE h)"
  using assms by (simp add: changelog_html_def bindE_def)

text \<open>The parsed feed is only read through its element 0.\<close>

lemma parse_feed_first:
  assumes "get_prop feed1 (lit ''0'') = get_prop feed2 (lit ''0'')"
  shows "parse_feed env feed1 = parse_feed env feed2"
  unfolding parse_feed_def acceptRelease_def changelog_html_def assms by (rule refl)

lemma parse_feed_other_request: "parse_feed (env\<lparr>got := g\<rparr>) feed = parse_feed env feed"
  unfolding parse_feed_def acceptRelease_def changelog_html_def by (simp cong: if_cong)

text \<open>The outcome of a check does not read the field left by an earlier one.\<close>

lemma check_outcome_any_object: "fst (check env this1) = fst (check env this2)"
  by (simp add: check_def parseResponse_def split: sum.splits)

text \<open>A produced result comes from a resolved request, a parsed body and \<open>parse_feed\<close>.\<close>

lemma check_produced:
  assumes "fst (check env this) = Inr d"
  shows "\<exists>res feed. releases_request env = Inr res \<and> trim (body res) \<noteq> [] \<and>
           JSON_parse env (body res) = Inr feed \<and> parse_feed env feed = Inr d"
  using assms
  by (auto simp add: check_def parseResponse_def split: sum.splits if_splits)

text \<open>
  A produced changelog is the converter's output for the first record's body, built
  with \<open>headerLevelStart\<close> 2 and the flavor \<open>github\<close>, after \<open>replace_aRE\<close>.
\<close>

lemma changelog_is_rewritten_rendering:
  assumes "fst (check env this) = Inr d"
  shows "\<exists>res feed r b h. releases_request env = Inr res \<and>
           JSON_parse env (body res) = Inr feed \<and>
           get_prop feed (lit ''0'') = Inr r \<and> get_prop r (lit ''body'') = Inr b \<and>
           makeHtml env \<lparr>headerLevelStart = 2, flavor = lit ''github''\<rparr> b = Inr (JStr h) \<and>
           changelog d = replace_aRE h"
proof -
  from check_produced [OF assms] obtain res feed where
    res: "releases_request env = Inr res" "JSON_parse env (body res) = Inr feed"
    and d: "parse_feed env feed = Inr d"
    by blast
  from d obtain r b h where
    "get_prop feed (lit ''0'') = Inr r" "get_prop r (lit ''body'') = Inr b"
    "makeHtml env \<lparr>headerLevelStart = 2, flavor = lit ''github''\<rparr> b = Inr (JStr h)"
    "changelog d = replace_aRE h"
    by (auto simp add: parse_feed_def changelog_html_def bindE_def
        split: sum.splits if_splits jsval.splits)
  with res show ?thesis by blast
qed

text \<open>A link on one line is rewritten: the handler and the target follow its attributes.\<close>

lemma one_line_link_rewritten:
  \<open>replace_aRE (lit ''<p><a href="https://x/notes">notes</a></p>'') =
     lit ''<p><a href="https://x/notes" onclick="require('electron').shell.openExternal(this.getAttribute('href')); return false;" target="_blank">notes</a></p>''\<close>
  by (simp add: lit_def exec_aRE_def replacer_def LineTerminator_def)

lemma trim_feed_text: "trim feed_text \<noteq> []"
  by (simp add: trim_eq_Nil feed_text_def lit_def StrWhiteSpaceChar_def WhiteSpace_def
      LineTerminator_def)

lemma trim_long_feed_text: "trim long_feed_text \<noteq> []"
  by (simp add: trim_eq_Nil long_feed_text_def lit_def StrWhiteSpaceChar_def WhiteSpace_def
      LineTerminator_def)

lemma trim_brackets: "trim (lit ''[]'') \<noteq> []"
  by (simp add: trim_eq_Nil lit_def StrWhiteSpaceChar_def WhiteSpace_def LineTerminator_def)

lemma trim_markup: "trim (lit ''<html>'') \<noteq> []"
  by (simp add: trim_eq_Nil lit_def StrWhiteSpaceChar_def WhiteSpace_def LineTerminator_def)

text \<open>The result of a check whose first record is newer, accepted and not a draft.\<close>

lemma check_resolves_with:
  assumes "releases_request env = Inr res"
    and "trim (body res) \<noteq> []"
    and "JSON_parse env (body res) = Inr (JArr (JObj kvs # rest))"
    and "semver_lt env (CUR_VER env) (own_property kvs (lit ''tag_name'')) = Inr True"
    and "makeHtml env \<lparr>headerLevelStart = 2, flavor = lit ''github''\<rparr>
           (own_property kvs (lit ''body'')) = Inr (JStr h)"
    and "\<not> truthy (own_property kvs (lit ''draft''))"
    and "truthy (config_get env (lit ''checkForBeta'')) \<or>
         \<not> truthy (own_property kvs (lit ''prerelease''))"
  shows "fst (check env this) =
     Inr \<lparr>newVer = own_property kvs (lit ''tag_name''), curVer = CUR_VER env,
          changelog = replace_aRE h, releaseURL = own_property kvs (lit ''html_url''),
          isBeta = own_property kvs (lit ''prerelease''), downloadURL = lit ''''\<rparr>"
proof -
  have first: "get_prop (JArr (JObj kvs # rest)) (lit ''0'') = Inr (JObj kvs)"
    by simp
  have "fst (check env this) = parse_feed env (JArr (JObj kvs # rest))"
    using assms(1-3) by (simp add: check_resolved parseResponse_parsed)
  then show ?thesis
    using assms(6,7)
    by (auto simp add: parse_feed_record [OF first assms(4)]
        changelog_html_record [OF first assms(5)] bindE_def)
qed


lemma release_beta_fields:
  "release_beta = JObj kvs \<Longrightarrow>
     own_property kvs (lit ''tag_name'') = JStr (lit ''1.3.0-beta.1'') \<and>
     own_property kvs (lit ''draft'') = JBool False \<and>
     own_property kvs (lit ''prerelease'') = JBool True \<and>
     own_property kvs (lit ''body'') = JStr (lit ''# Notes'') \<and>
     own_property kvs (lit ''html_url'') = JStr (lit ''https://x/1.3.0-beta.1'')"
  by (auto simp add: release_beta_def own_property_def lit_def)

lemma release_two_line_link_fields:
  "release_two_line_link = JObj kvs \<Longrightarrow>
     own_property kvs (lit ''tag_name'') = JStr (lit ''1.3.0'') \<and>
     own_property kvs (lit ''draft'') = JBool False \<and>
     own_property kvs (lit ''prerelease'') = JBool False \<and>
     own_property kvs (lit ''body'') = JStr two_line_link_notes \<and>
     own_property kvs (lit ''html_url'') = JStr (lit ''https://x/1.3.0'')"
  by (auto simp add: release_two_line_link_def own_property_def lit_def)

lemma feed_texts_differ: "long_feed_text \<noteq> feed_text"
  by (simp add: feed_text_def long_feed_text_def lit_def)


section \<open>The claims\<close>

subsection \<open>When an update is reported\<close>




subsection \<open>A rejected request\<close>



subsection \<open>A blank body and a body that does not parse\<close>

text \<open>
  C3. When the body is empty or holds only white space and line terminators,
  \<open>_parseResponse\<close> throws the \<open>dialog.update.no_data\<close> message and leaves the
  field as it was; the parser, the version comparison, the converter and the setting
  are not consulted, so no release record is examined: the outcome is the same
  whatever they are.
\<close>

theorem blank_body_no_data:
  assumes "\<forall>c\<in>set s. StrWhiteSpaceChar c"
  shows "parseResponse env (this\<lparr>response := JStr s\<rparr>) =
           (Inl (Error (translate env (lit ''dialog.update.no_data'') [])),
            this\<lparr>response := JStr s\<rparr>) \<and>
         parseResponse (env\<lparr>JSON_parse := p, semver_lt := l, makeHtml := m, config_get := c\<rparr>)
           (this\<lparr>response := JStr s\<rparr>) =
         parseResponse env (this\<lparr>response := JStr s\<rparr>)"
proof -
  from assms have "trim s = []"
    by (simp only: trim_eq_Nil)
  then show ?thesis
    by (simp add: parseResponse_def)
qed

theorem blank_body_no_data_witness:
  "list_all StrWhiteSpaceChar [0x20, 0x0A, 0x09] \<and>
   fst (parseResponse
     (fixed_env (Inr \<lparr>body = [0x20, 0x0A, 0x09]\<rparr>) (JBool False) (parse_table [])
        (Inr False) (Inr Undefined))
     (constructor\<lparr>response := JStr [0x20, 0x0A, 0x09]\<rparr>)) =
     Inl (Error (lit ''dialog.update.no_data''))"
proof -
  have ws: "\<forall>c\<in>set [0x20, 0x0A, 0x09]. StrWhiteSpaceChar c"
    by (simp add: StrWhiteSpaceChar_def WhiteSpace_def LineTerminator_def)
  from blank_body_no_data [OF ws, of
      "fixed_env (Inr \<lparr>body = [0x20, 0x0A, 0x09]\<rparr>) (JBool False) (parse_table [])
        (Inr False) (Inr Undefined)" constructor]
  have "parseResponse
     (fixed_env (Inr \<lparr>body = [0x20, 0x0A, 0x09]\<rparr>) (JBool False) (parse_table [])
        (Inr False) (Inr Undefined))
     (constructor\<lparr>response := JStr [0x20, 0x0A, 0x09]\<rparr>) =
     (Inl (Error (translate (fixed_env (Inr \<lparr>body = [0x20, 0x0A, 0x09]\<rparr>) (JBool False)
        (parse_table []) (Inr False) (Inr Undefined)) (lit ''dialog.update.no_data'') [])),
      constructor\<lparr>response := JStr [0x20, 0x0A, 0x09]\<rparr>)"
    by (rule conjunct1)
  then show ?thesis
    using ws by (simp add: fixed_env_def list_all_iff)
qed

text \<open>
  C4, as amended. When the body is not blank and \<open>JSON.parse\<close> rejects it,
  \<open>_parseResponse\<close> throws the parser's own exception, unchanged, and so does the
  check: the failure gets no message key and no kind of its own.
\<close>

theorem parse_failure_escapes:
  assumes "releases_request env = Inr res"
    and "trim (body res) \<noteq> []"
    and "JSON_parse env (body res) = Inl e"
  shows "parseResponse env (this\<lparr>response := JStr (body res)\<rparr>) =
           (Inl e, this\<lparr>response := JStr (body res)\<rparr>) \<and>
         fst (check env this) = Inl e"
  using assms by (simp add: check_def parseResponse_def)

theorem parse_failure_escapes_witness:
  "trim (lit ''<html>'') \<noteq> [] \<and>
   fst (check
     (fixed_env (Inr \<lparr>body = lit ''<html>''\<rparr>) (JBool True)
        (parse_table [(feed_text, JArr [release_1_3_0])]) (Inr True) (Inr (JStr notes_html)))
     (constructor\<lparr>response := Null\<rparr>)) =
     Inl (SyntaxError (lit ''Unexpected token < in JSON at position 0''))"
proof -
  let ?env = "fixed_env (Inr \<lparr>body = lit ''<html>''\<rparr>) (JBool True)
        (parse_table [(feed_text, JArr [release_1_3_0])]) (Inr True) (Inr (JStr notes_html))"
  let ?e = "SyntaxError (lit ''Unexpected token < in JSON at position 0'')"
  have req: "releases_request ?env = Inr \<lparr>body = lit ''<html>''\<rparr>"
    by (simp add: releases_request_def fixed_env_def)
  have blank: "trim (body \<lparr>body = lit ''<html>''\<rparr>) \<noteq> []"
    by (simp add: trim_markup)
  have "lit ''<html>'' \<noteq> feed_text"
    by (simp add: feed_text_def lit_def)
  then have parsed: "JSON_parse ?env (body \<lparr>body = lit ''<html>''\<rparr>) = Inl ?e"
    by (simp add: fixed_env_def parse_table_def)
  from parse_failure_escapes [OF req blank parsed, of "constructor\<lparr>response := Null\<rparr>"]
  have "fst (check ?env (constructor\<lparr>response := Null\<rparr>)) = Inl ?e"
    by (rule conjunct2)
  then show ?thesis
    using trim_markup by simp
qed

text \<open>
  The claim as stated fails on the body \<open><html>\<close>: the check rejects with the
  SyntaxError that the parser threw, not with an error of the command's own.
\<close>

theorem markup_body_raw_syntax_error:
  "trim (lit ''<html>'') \<noteq> [] \<and>
   JSON_parse
     (fixed_env (Inr \<lparr>body = lit ''<html>''\<rparr>) (JBool False) (parse_table [])
        (Inr True) (Inr (JStr notes_html)))
     (lit ''<html>'') = Inl (SyntaxError (lit ''Unexpected token < in JSON at position 0'')) \<and>
   fst (check
     (fixed_env (Inr \<lparr>body = lit ''<html>''\<rparr>) (JBool False) (parse_table [])
        (Inr True) (Inr (JStr notes_html)))
     constructor) = Inl (SyntaxError (lit ''Unexpected token < in JSON at position 0''))"
proof -
  let ?env = "fixed_env (Inr \<lparr>body = lit ''<html>''\<rparr>) (JBool False) (parse_table [])
        (Inr True) (Inr (JStr notes_html))"
  have parsed: "JSON_parse ?env (lit ''<html>'') =
      Inl (SyntaxError (lit ''Unexpected token < in JSON at position 0''))"
    by (simp add: fixed_env_def parse_table_def)
  have "releases_request ?env = Inr \<lparr>body = lit ''<html>''\<rparr>"
    by (simp add: releases_request_def fixed_env_def)
  then have "fst (check ?env constructor) =
      Inl (SyntaxError (lit ''Unexpected token < in JSON at position 0''))"
    using trim_markup parsed by (simp add: check_def parseResponse_def)
  with parsed show ?thesis
    using trim_markup by simp
qed


subsection \<open>The update data\<close>

text \<open>
  C5. The claim says that every hyperlink of the rendered changelog gets the
  \<open>onclick\<close> handler and \<open>target="_blank"\<close>. The source rewrites what \<open>aRE\<close>
  matches, and its dot does not match a line terminator: on the release whose notes
  are one link with a line break in its text, the check resolves and the changelog is
  the rendered paragraph unchanged, its link without handler and without target.
\<close>

theorem two_line_link_not_rewritten:
  "fst (check
     (fixed_env (Inr \<lparr>body = feed_text\<rparr>) (JBool False)
        (parse_table [(feed_text, JArr [release_two_line_link])]) (Inr True)
        (Inr (JStr two_line_link_html)))
     constructor) =
   Inr \<lparr>newVer = JStr (lit ''1.3.0''), curVer = lit ''1.2.0'',
        changelog = two_line_link_html,
        releaseURL = JStr (lit ''https://x/1.3.0''), isBeta = JBool False,
        downloadURL = lit ''''\<rparr>"
proof -
  let ?env = "fixed_env (Inr \<lparr>body = feed_text\<rparr>) (JBool False)
        (parse_table [(feed_text, JArr [release_two_line_link])]) (Inr True)
        (Inr (JStr two_line_link_html))"
  obtain kvs where kvs: "release_two_line_link = JObj kvs"
    by (simp add: release_two_line_link_def)
  note fields = release_two_line_link_fields [OF kvs]
  have req: "releases_request ?env = Inr \<lparr>body = feed_text\<rparr>"
    by (simp add: releases_request_def fixed_env_def)
  have blank: "trim (body \<lparr>body = feed_text\<rparr>) \<noteq> []"
    by (simp add: trim_feed_text)
  have parsed: "JSON_parse ?env (body \<lparr>body = feed_text\<rparr>) = Inr (JArr (JObj kvs # []))"
    by (simp add: fixed_env_def parse_table_def kvs)
  have newer: "semver_lt ?env (CUR_VER ?env) (own_property kvs (lit ''tag_name'')) = Inr True"
    by (simp add: fixed_env_def)
  have html: "makeHtml ?env \<lparr>headerLevelStart = 2, flavor = lit ''github''\<rparr>
           (own_property kvs (lit ''body'')) = Inr (JStr two_line_link_html)"
    by (simp add: fixed_env_def)
  have draft: "\<not> truthy (own_property kvs (lit ''draft''))"
    by (simp add: fields)
  have accept: "truthy (config_get ?env (lit ''checkForBeta'')) \<or>
         \<not> truthy (own_property kvs (lit ''prerelease''))"
    by (simp add: fields)
  have cur: "CUR_VER ?env = lit ''1.2.0''"
    by (simp add: fixed_env_def)
  have kept: "replace_aRE two_line_link_html = two_line_link_html"
    by (simp add: two_line_link_html_def lit_def exec_aRE_def LineTerminator_def)
  show ?thesis
    using check_resolves_with [OF req blank parsed newer html draft accept, of constructor]
    by (simp add: fields kept cur)
qed

text \<open>
  C6. Whenever the check resolves, its result is built from the first element of the
  parsed feed: \<open>newVer\<close> is its \<open>tag_name\<close>, \<open>curVer\<close> the running version,
  \<open>releaseURL\<close> its \<open>html_url\<close>, \<open>isBeta\<close> its \<open>prerelease\<close> (so an accepted
  prerelease gives \<open>isBeta\<close> true), and \<open>downloadURL\<close> is the empty string.
\<close>

theorem update_data_fields:
  assumes "fst (check env this) = Inr d"
  shows "\<exists>res feed r. releases_request env = Inr res \<and>
           JSON_parse env (body res) = Inr feed \<and>
           get_prop feed (lit ''0'') = Inr r \<and>
           get_prop r (lit ''tag_name'') = Inr (newVer d) \<and>
           curVer d = CUR_VER env \<and>
           get_prop r (lit ''html_url'') = Inr (releaseURL d) \<and>
           get_prop r (lit ''prerelease'') = Inr (isBeta d) \<and>
           downloadURL d = lit ''''"
proof -
  from check_produced [OF assms] obtain res feed where
    res: "releases_request env = Inr res" "JSON_parse env (body res) = Inr feed"
    and d: "parse_feed env feed = Inr d"
    by blast
  from d obtain r where
    "get_prop feed (lit ''0'') = Inr r"
    "get_prop r (lit ''tag_name'') = Inr (newVer d)"
    "curVer d = CUR_VER env"
    "get_prop r (lit ''html_url'') = Inr (releaseURL d)"
    "get_prop r (lit ''prerelease'') = Inr (isBeta d)"
    "downloadURL d = lit ''''"
    by (auto simp add: parse_feed_def bindE_def split: sum.splits if_splits)
  with res show ?thesis by blast
qed

text \<open>An accepted prerelease: the result and the record agree, and \<open>isBeta\<close> is true.\<close>

theorem update_data_fields_witness:
  "fst (check
     (fixed_env (Inr \<lparr>body = feed_text\<rparr>) (JBool True)
        (parse_table [(feed_text, JArr [release_beta])]) (Inr True)
        (Inr (JStr notes_html)))
     constructor) =
   Inr \<lparr>newVer = JStr (lit ''1.3.0-beta.1''), curVer = lit ''1.2.0'',
        changelog = notes_html,
        releaseURL = JStr (lit ''https://x/1.3.0-beta.1''), isBeta = JBool True,
        downloadURL = lit ''''\<rparr> \<and>
   get_prop release_beta (lit ''tag_name'') = Inr (JStr (lit ''1.3.0-beta.1'')) \<and>
   get_prop release_beta (lit ''html_url'') = Inr (JStr (lit ''https://x/1.3.0-beta.1'')) \<and>
   get_prop release_beta (lit ''prerelease'') = Inr (JBool True)"
proof -
  let ?env = "fixed_env (Inr \<lparr>body = feed_text\<rparr>) (JBool True)
        (parse_table [(feed_text, JArr [release_beta])]) (Inr True)
        (Inr (JStr notes_html))"
  let ?d = "\<lparr>newVer = JStr (lit ''1.3.0-beta.1''), curVer = lit ''1.2.0'',
        changelog = notes_html,
        releaseURL = JStr (lit ''https://x/1.3.0-beta.1''), isBeta = JBool True,
        downloadURL = lit ''''\<rparr>"
  obtain kvs where kvs: "release_beta = JObj kvs"
    by (simp add: release_beta_def)
  note fields = release_beta_fields [OF kvs]
  have req: "releases_request ?env = Inr \<lparr>body = feed_text\<rparr>"
    by (simp add: releases_request_def fixed_env_def)
  have blank: "trim (body \<lparr>body = feed_text\<rparr>) \<noteq> []"
    by (simp add: trim_feed_text)
  have parsed: "JSON_parse ?env (body \<lparr>body = feed_text\<rparr>) = Inr (JArr (JObj kvs # []))"
    by (simp add: fixed_env_def parse_table_def kvs)
  have newer: "semver_lt ?env (CUR_VER ?env) (own_property kvs (lit ''tag_name'')) = Inr True"
    by (simp add: fixed_env_def)
  have html: "makeHtml ?env \<lparr>headerLevelStart = 2, flavor = lit ''github''\<rparr>
           (own_property kvs (lit ''body'')) = Inr (JStr notes_html)"
    by (simp add: fixed_env_def)
  have draft: "\<not> truthy (own_property kvs (lit ''draft''))"
    by (simp add: fields)
  have accept: "truthy (config_get ?env (lit ''checkForBeta'')) \<or>
         \<not> truthy (own_property kvs (lit ''prerelease''))"
    by (simp add: fixed_env_def)
  have cur: "CUR_VER ?env = lit ''1.2.0''"
    by (simp add: fixed_env_def)
  have kept: "replace_aRE notes_html = notes_html"
    by (simp add: notes_html_def lit_def exec_aRE_def)
  have resolved: "fst (check ?env constructor) = Inr ?d"
    using check_resolves_with [OF req blank parsed newer html draft accept, of constructor]
    by (simp add: fields kept cur)
  from update_data_fields [OF resolved] obtain res feed r where
    res: "releases_request ?env = Inr res"
    and feed: "JSON_parse ?env (body res) = Inr feed"
    and first: "get_prop feed (lit ''0'') = Inr r"
    and r: "get_prop r (lit ''tag_name'') = Inr (newVer ?d)"
    "get_prop r (lit ''html_url'') = Inr (releaseURL ?d)"
    "get_prop r (lit ''prerelease'') = Inr (isBeta ?d)"
    by blast
  from res req have "res = \<lparr>body = feed_text\<rparr>"
    by simp
  with feed parsed have "feed = JArr [JObj kvs]"
    by simp
  with first have "r = release_beta"
    by (simp add: kvs)
  with r resolved show ?thesis
    by simp
qed

subsection \<open>What the outcome depends on\<close>

text \<open>
  C7. Two feeds with the same first record give the same outcome, whatever follows the
  first record: for the same version, setting, parser, comparison and converter, a
  check whose request resolves with the one body and a check whose request resolves
  with the other settle alike.
\<close>

theorem outcome_of_first_record:
  assumes "releases_request env = Inr res1"
    and "releases_request (env\<lparr>got := g\<rparr>) = Inr res2"
    and "trim (body res1) \<noteq> []"
    and "trim (body res2) \<noteq> []"
    and "JSON_parse env (body res1) = Inr (JArr (r # rest1))"
    and "JSON_parse env (body res2) = Inr (JArr (r # rest2))"
  shows "fst (check env this1) = fst (check (env\<lparr>got := g\<rparr>) this2)"
proof -
  have "fst (check env this1) = parse_feed env (JArr (r # rest1))"
    using assms(1,3,5) by (simp add: check_resolved parseResponse_parsed)
  moreover have "fst (check (env\<lparr>got := g\<rparr>) this2) =
      parse_feed (env\<lparr>got := g\<rparr>) (JArr (r # rest2))"
    using assms(2,4,6) by (simp add: check_resolved parseResponse_parsed)
  moreover have "parse_feed env (JArr (r # rest1)) = parse_feed env (JArr (r # rest2))"
    by (rule parse_feed_first) simp
  ultimately show ?thesis
    by (simp add: parse_feed_other_request)
qed

theorem outcome_of_first_record_witness:
  "fst (check
     (fixed_env (Inr \<lparr>body = feed_text\<rparr>) (JBool False)
        (parse_table [(feed_text, JArr [release_1_3_0]),
                      (long_feed_text, JArr [release_1_3_0, release_1_2_0])])
        (Inr True) (Inr (JStr notes_html)))
     constructor) =
   fst (check
     (fixed_env (Inr \<lparr>body = feed_text\<rparr>) (JBool False)
        (parse_table [(feed_text, JArr [release_1_3_0]),
                      (long_feed_text, JArr [release_1_3_0, release_1_2_0])])
        (Inr True) (Inr (JStr notes_html))
      \<lparr>got := \<lambda>url opts. Inr \<lparr>body = long_feed_text\<rparr>\<rparr>)
     constructor)"
proof -
  let ?env = "fixed_env (Inr \<lparr>body = feed_text\<rparr>) (JBool False)
        (parse_table [(feed_text, JArr [release_1_3_0]),
                      (long_feed_text, JArr [release_1_3_0, release_1_2_0])])
        (Inr True) (Inr (JStr notes_html))"
  let ?g = "\<lambda>(url :: jsstring) (opts :: got_options).
              (Inr \<lparr>body = long_feed_text\<rparr> :: got_error + got_response)"
  have req1: "releases_request ?env = Inr \<lparr>body = feed_text\<rparr>"
    by (simp add: releases_request_def fixed_env_def)
  have req2: "releases_request (?env\<lparr>got := ?g\<rparr>) = Inr \<lparr>body = long_feed_text\<rparr>"
    by (simp add: releases_request_def fixed_env_def)
  have blank1: "trim (body \<lparr>body = feed_text\<rparr>) \<noteq> []"
    by (simp add: trim_feed_text)
  have blank2: "trim (body \<lparr>body = long_feed_text\<rparr>) \<noteq> []"
    by (simp add: trim_long_feed_text)
  have parsed1: "JSON_parse ?env (body \<lparr>body = feed_text\<rparr>) = Inr (JArr (release_1_3_0 # []))"
    by (simp add: fixed_env_def parse_table_def)
  have parsed2: "JSON_parse ?env (body \<lparr>body = long_feed_text\<rparr>) =
      Inr (JArr (release_1_3_0 # [release_1_2_0]))"
    by (simp add: fixed_env_def parse_table_def feed_texts_differ)
  show ?thesis
    by (rule outcome_of_first_record [OF req1 req2 blank1 blank2 parsed1 parsed2])
qed

text \<open>
  C8. A check does not read what an earlier check left in the object: the outcome is
  the same from any object, so a second check on the object that the first one left
  settles as the first did, and leaves the object as the first did.
\<close>

theorem check_twice_same_outcome:
  "fst (check env (snd (check env this))) = fst (check env this) \<and>
   snd (check env (snd (check env this))) = snd (check env this) \<and>
   fst (check env this1) = fst (check env this2)"
proof -
  have "snd (check env (snd (check env this))) = snd (check env this)"
    by (simp add: check_def parseResponse_def split: sum.splits)
  then show ?thesis
    using check_outcome_any_object [of env "snd (check env this)" this]
      check_outcome_any_object [of env this1 this2]
    by simp
qed

theorem check_twice_same_outcome_witness:
  "fst (check
     (fixed_env (Inr \<lparr>body = feed_text\<rparr>) (JBool False)
        (parse_table [(feed_text, JArr [release_1_3_0])]) (Inr True) (Inr (JStr notes_html)))
     (snd (check
       (fixed_env (Inr \<lparr>body = feed_text\<rparr>) (JBool False)
          (parse_table [(feed_text, JArr [release_1_3_0])]) (Inr True)
          (Inr (JStr notes_html)))
       constructor))) =
   fst (check
     (fixed_env (Inr \<lparr>body = feed_text\<rparr>) (JBool False)
        (parse_table [(feed_text, JArr [release_1_3_0])]) (Inr True) (Inr (JStr notes_html)))
     constructor)"
  using check_twice_same_outcome
    [of "fixed_env (Inr \<lparr>body = feed_text\<rparr>) (JBool False)
        (parse_table [(feed_text, JArr [release_1_3_0])]) (Inr True) (Inr (JStr notes_html))"
      constructor]
  by (rule conjunct1)

subsection \<open>\<open>run\<close>\<close>

text \<open>
  C9. \<open>run\<close> returns true. When the check rejects, with whatever thrown value, the
  message of that value is what goes to the notification channel, and nothing else is
  sent; when the check resolves, the result goes out as \<open>update-available\<close>, and
  nothing else is sent. \<open>run\<close> has no other outcome: it does not throw.
\<close>

theorem run_reports_every_outcome:
  "fst (run env this) = True \<and>
   (\<forall>e. fst (check env this) = Inl e \<longrightarrow>
        fst (snd (run env this)) = [Ipc_notify (message_of e)]) \<and>
   (\<forall>d. fst (check env this) = Inr d \<longrightarrow>
        fst (snd (run env this)) = [Ipc_send (lit ''update-available'') d]) \<and>
   snd (snd (run env this)) = snd (check env this)"
  by (cases "check env this") (auto simp add: run_def split: sum.splits)

text \<open>The scenario of a feed that is not newer: the user is told that there is no update.\<close>

theorem run_reports_every_outcome_witness:
  "run
     (fixed_env (Inr \<lparr>body = feed_text\<rparr>) (JBool False)
        (parse_table [(feed_text, JArr [release_1_2_0])]) (Inr False) (Inr (JStr notes_html)))
     constructor =
   (True, [Ipc_notify (lit ''dialog.update.no_update'')],
    \<lparr>response = JArr [release_1_2_0]\<rparr>)"
proof -
  let ?env = "fixed_env (Inr \<lparr>body = feed_text\<rparr>) (JBool False)
        (parse_table [(feed_text, JArr [release_1_2_0])]) (Inr False) (Inr (JStr notes_html))"
  obtain kvs where kvs: "release_1_2_0 = JObj kvs"
    by (simp add: release_1_2_0_def)
  have req: "releases_request ?env = Inr \<lparr>body = feed_text\<rparr>"
    by (simp add: releases_request_def fixed_env_def)
  have parsed: "JSON_parse ?env feed_text = Inr (JArr [JObj kvs])"
    by (simp add: fixed_env_def parse_table_def kvs)
  have first: "get_prop (JArr [JObj kvs]) (lit ''0'') = Inr (JObj kvs)"
    by simp
  have older: "semver_lt ?env (CUR_VER ?env) (own_property kvs (lit ''tag_name'')) = Inr False"
    by (simp add: fixed_env_def)
  have "check ?env constructor =
      (parse_feed ?env (JArr [JObj kvs]), constructor\<lparr>response := JArr [JObj kvs]\<rparr>)"
    using check_resolved [OF req, of constructor]
      parseResponse_parsed [OF trim_feed_text parsed, of constructor]
    by simp
  moreover have "parse_feed ?env (JArr [JObj kvs]) =
      Inl (Error (translate ?env (lit ''dialog.update.no_update'') []))"
    by (simp add: parse_feed_record [OF first older])
  moreover have "translate ?env (lit ''dialog.update.no_update'') [] =
      lit ''dialog.update.no_update''"
    by (simp add: fixed_env_def)
  ultimately have rejected: "check ?env constructor =
      (Inl (Error (lit ''dialog.update.no_update'')), \<lparr>response = JArr [release_1_2_0]\<rparr>)"
    by (simp add: kvs constructor_def)
  from run_reports_every_outcome [of ?env constructor] rejected
  have "fst (run ?env constructor) = True"
    and "fst (snd (run ?env constructor)) =
      [Ipc_notify (message_of (Error (lit ''dialog.update.no_update'')))]"
    and "snd (snd (run ?env constructor)) = \<lparr>response = JArr [release_1_2_0]\<rparr>"
    by simp_all
  then show ?thesis
    by (cases "run ?env constructor") simp
qed

subsection \<open>A feed without a record\<close>

text \<open>
  C10. When the body is not blank and parses to the empty list, \<open>_parseResponse\<close>
  reads a field of element 0, which is \<open>undefined\<close>, without a guard: \<open>prerelease\<close>
  when beta releases are not accepted, \<open>tag_name\<close> when they are. It throws the
  TypeError of that read, which is neither the \<open>dialog.update.no_data\<close> nor the
  \<open>dialog.update.no_update\<close> error, nor any error of the command's own.
\<close>

theorem empty_feed_raw_type_error:
  assumes "trim s \<noteq> []"
    and "JSON_parse env s = Inr (JArr [])"
  shows "fst (parseResponse env (this\<lparr>response := JStr s\<rparr>)) =
           Inl (cannot_read
                  (if truthy (config_get env (lit ''checkForBeta''))
                   then lit ''tag_name'' else lit ''prerelease'') Undefined) \<and>
         (\<forall>m. fst (parseResponse env (this\<lparr>response := JStr s\<rparr>)) \<noteq> Inl (Error m))"
  using assms
  by (simp add: parseResponse_def parse_feed_def acceptRelease_def bindE_def cannot_read_def)

theorem empty_feed_raw_type_error_witness:
  "trim (lit ''[]'') \<noteq> [] \<and>
   fst (parseResponse
     (fixed_env (Inr \<lparr>body = lit ''[]''\<rparr>) (JBool False)
        (parse_table [(lit ''[]'', JArr [])]) (Inr True) (Inr (JStr notes_html)))
     (constructor\<lparr>response := JStr (lit ''[]'')\<rparr>)) =
     Inl (TypeError (lit ''Cannot read property 'prerelease' of undefined''))"
proof -
  let ?env = "fixed_env (Inr \<lparr>body = lit ''[]''\<rparr>) (JBool False)
        (parse_table [(lit ''[]'', JArr [])]) (Inr True) (Inr (JStr notes_html))"
  have parsed: "JSON_parse ?env (lit ''[]'') = Inr (JArr [])"
    by (simp add: fixed_env_def parse_table_def)
  have cfg: "\<not> truthy (config_get ?env (lit ''checkForBeta''))"
    by (simp add: fixed_env_def)
  have msg: "cannot_read (lit ''prerelease'') Undefined =
      TypeError (lit ''Cannot read property 'prerelease' of undefined'')"
    by (simp add: cannot_read_def lit_def)
  from empty_feed_raw_type_error [OF trim_brackets parsed, of constructor]
  have "fst (parseResponse ?env (constructor\<lparr>response := JStr (lit ''[]'')\<rparr>)) =
           Inl (cannot_read
                  (if truthy (config_get ?env (lit ''checkForBeta''))
                   then lit ''tag_name'' else lit ''prerelease'') Undefined)"
    by (rule conjunct1)
  then show ?thesis
    using trim_brackets cfg msg by simp
qed


end
